theory Spec2Isabelle
  imports Main "HOL-Library.Word"
begin

section \<open>Items, durations and the cache structure\<close>

text \<open>
  The embedding follows \<^verbatim>\<open>cache_mutex.go\<close>. Times are Unix nanoseconds and durations
  are nanosecond counts, both Go \<^verbatim>\<open>int64\<close>: 64-bit words compared as signed values
  (\<open><s\<close>). Every reading of \<^verbatim>\<open>time.Now().UnixNano()\<close> is an explicit argument of the
  operation that makes it.
\<close>

type_synonym int64 = "64 word"
type_synonym Duration = "64 word"

record 'v Item =
  Object :: 'v
  Expiration :: int64

text \<open>\<^verbatim>\<open>Item.Expired\<close>: a zero expiration never expires; otherwise \<^verbatim>\<open>now > Expiration\<close>.\<close>

definition Expired :: "'v Item \<Rightarrow> int64 \<Rightarrow> bool" where
  "Expired item now = (if Expiration item = 0 then False else Expiration item <s now)"

definition NoExpiration :: Duration where
  "NoExpiration = - 1"

definition DefaultExpiration :: Duration where
  "DefaultExpiration = 0"

text \<open>The janitor's channel belongs to the goroutine that sweeps; only the interval is data.\<close>

record janitor =
  Interval :: Duration

text \<open>
  The struct \<^verbatim>\<open>cache[T]\<close>. The callback \<^verbatim>\<open>onEvicted\<close> is \<^verbatim>\<open>nil\<close> (\<open>None\<close>) or a function
  of key and value; what a call of it does is an abstract effect of type \<open>'e\<close>, recorded in
  the trace of the operation that makes the call. The mutex \<^verbatim>\<open>mu\<close> is not a field: taking
  and releasing it are events of the same trace. Callbacks of the model do not call back
  into the cache.
\<close>

record ('v, 'e) cache =
  defaultExpiration :: Duration
  items :: "string \<rightharpoonup> 'v Item"
  onEvicted :: "(string \<Rightarrow> 'v \<Rightarrow> 'e) option"
  janitor :: "janitor option"

datatype 'e event = Lock | Unlock | RLock | RUnlock | Callback 'e

text \<open>
  A public method returns its Go results, the cache after the call and the events of the
  call, in program order.
\<close>

type_synonym ('r, 'v, 'e) outcome = "'r \<times> ('v, 'e) cache \<times> 'e event list"

definition ret :: "('r, 'v, 'e) outcome \<Rightarrow> 'r" where
  "ret r = fst r"

definition post :: "('r, 'v, 'e) outcome \<Rightarrow> ('v, 'e) cache" where
  "post r = fst (snd r)"

definition trace :: "('r, 'v, 'e) outcome \<Rightarrow> 'e event list" where
  "trace r = snd (snd r)"

text \<open>The callback invocations of a trace, in order.\<close>

fun callbacks :: "'e event list \<Rightarrow> 'e list" where
  "callbacks [] = []"
| "callbacks (Callback e # es) = e # callbacks es"
| "callbacks (_ # es) = callbacks es"

text \<open>Errors are the messages built by \<^verbatim>\<open>fmt.Errorf\<close>.\<close>

type_synonym error = string

definition err_already_exists :: "string \<Rightarrow> error" where
  "err_already_exists k = ''Item '' @ k @ '' already exists''"

definition err_doesnt_exist :: "string \<Rightarrow> error" where
  "err_doesnt_exist k = ''Item '' @ k @ '' doesn't exist''"

definition err_not_found :: "string \<Rightarrow> error" where
  "err_not_found k = ''Item '' @ k @ '' not found''"

definition err_item_not_found :: error where
  "err_item_not_found = ''Item not found''"

section \<open>Writing\<close>

text \<open>
  \<^verbatim>\<open>time.Now().Add(d).UnixNano()\<close> is the sum of two \<^verbatim>\<open>int64\<close> nanosecond counts, which
  wraps around when it leaves the range.
\<close>

definition Set :: "('v, 'e) cache \<Rightarrow> string \<Rightarrow> 'v \<Rightarrow> Duration \<Rightarrow> int64 \<Rightarrow> (unit, 'v, 'e) outcome" where
  "Set c k x d now =
     (let d' = (if d = DefaultExpiration then defaultExpiration c else d);
          e = (if 0 <s d' then now + d' else 0)
      in ((), c\<lparr>items := (items c)(k \<mapsto> \<lparr>Object = x, Expiration = e\<rparr>)\<rparr>, [Lock, Unlock]))"

text \<open>The unexported \<^verbatim>\<open>set\<close>, called with the lock held.\<close>

definition set_item :: "('v, 'e) cache \<Rightarrow> string \<Rightarrow> 'v \<Rightarrow> Duration \<Rightarrow> int64 \<Rightarrow> ('v, 'e) cache" where
  "set_item c k x d now =
     (let d' = (if d = DefaultExpiration then defaultExpiration c else d);
          e = (if 0 <s d' then now + d' else 0)
      in c\<lparr>items := (items c)(k \<mapsto> \<lparr>Object = x, Expiration = e\<rparr>)\<rparr>)"

definition SetDefault :: "('v, 'e) cache \<Rightarrow> string \<Rightarrow> 'v \<Rightarrow> int64 \<Rightarrow> (unit, 'v, 'e) outcome" where
  "SetDefault c k x now = Set c k x DefaultExpiration now"

section \<open>Reading\<close>

text \<open>
  The unexported \<^verbatim>\<open>get\<close>: an expired item is returned with \<^verbatim>\<open>false\<close>. A pointer result is
  an option, \<^verbatim>\<open>nil\<close> being \<open>None\<close>.
\<close>

definition get :: "('v, 'e) cache \<Rightarrow> string \<Rightarrow> int64 \<Rightarrow> 'v option \<times> bool" where
  "get c k now =
     (case items c k of
        None \<Rightarrow> (None, False)
      | Some item \<Rightarrow>
          if 0 <s Expiration item \<and> Expiration item <s now then (Some (Object item), False)
          else (Some (Object item), True))"

definition Get :: "('v, 'e) cache \<Rightarrow> string \<Rightarrow> int64 \<Rightarrow> ('v option \<times> bool, 'v, 'e) outcome" where
  "Get c k now =
     (case items c k of
        None \<Rightarrow> ((None, False), c, [RLock, RUnlock])
      | Some item \<Rightarrow>
          if 0 <s Expiration item \<and> Expiration item <s now then ((None, False), c, [RLock, RUnlock])
          else ((Some (Object item), True), c, [RLock, RUnlock]))"

definition ItemCount :: "('v, 'e) cache \<Rightarrow> (nat, 'v, 'e) outcome" where
  "ItemCount c = (card (dom (items c)), c, [RLock, RUnlock])"

section \<open>Conditional writing\<close>

text \<open>
  \<^verbatim>\<open>Add\<close> and \<^verbatim>\<open>Replace\<close> read the clock twice: in \<^verbatim>\<open>get\<close> (\<open>t1\<close>) and then in
  \<^verbatim>\<open>set\<close> (\<open>t2\<close>). The error result is \<open>None\<close> for \<^verbatim>\<open>nil\<close>.
\<close>

definition Add :: "('v, 'e) cache \<Rightarrow> string \<Rightarrow> 'v \<Rightarrow> Duration \<Rightarrow> int64 \<Rightarrow> int64 \<Rightarrow> (error option, 'v, 'e) outcome" where
  "Add c k x d t1 t2 =
     (let (_, found) = get c k t1
      in if found then (Some (err_already_exists k), c, [Lock, Unlock])
         else (None, set_item c k x d t2, [Lock, Unlock]))"

definition Replace :: "('v, 'e) cache \<Rightarrow> string \<Rightarrow> 'v \<Rightarrow> Duration \<Rightarrow> int64 \<Rightarrow> int64 \<Rightarrow> (error option, 'v, 'e) outcome" where
  "Replace c k x d t1 t2 =
     (let (_, found) = get c k t1
      in if \<not> found then (Some (err_doesnt_exist k), c, [Lock, Unlock])
         else (None, set_item c k x d t2, [Lock, Unlock]))"

section \<open>Numeric caches\<close>

text \<open>
  \<^verbatim>\<open>numericCache[T]\<close> for the integer kinds of \<^verbatim>\<open>Numeric\<close>: a value of a \<open>w\<close>-bit integer
  type is a \<open>w word\<close>, read by \<open>sint\<close> for the signed types and by \<open>uint\<close> for the unsigned
  ones; Go's \<^verbatim>\<open>+\<close> and \<^verbatim>\<open>-\<close> on them are the word operations. The floating-point kinds are
  not covered.
\<close>

definition Increment :: "('a::len word, 'e) cache \<Rightarrow> string \<Rightarrow> 'a word \<Rightarrow> int64 \<Rightarrow> (error + 'a word, 'a word, 'e) outcome" where
  "Increment c k n now =
     (case items c k of
        None \<Rightarrow> (Inl (err_not_found k), c, [Lock, Unlock])
      | Some v \<Rightarrow>
          if Expired v now then (Inl (err_not_found k), c, [Lock, Unlock])
          else (let nv = Object v + n
                in (Inr nv, c\<lparr>items := (items c)(k \<mapsto> v\<lparr>Object := nv\<rparr>)\<rparr>, [Lock, Unlock])))"

definition Decrement :: "('a::len word, 'e) cache \<Rightarrow> string \<Rightarrow> 'a word \<Rightarrow> int64 \<Rightarrow> (error + 'a word, 'a word, 'e) outcome" where
  "Decrement c k n now =
     (case items c k of
        None \<Rightarrow> (Inl err_item_not_found, c, [Lock, Unlock])
      | Some v \<Rightarrow>
          if Expired v now then (Inl err_item_not_found, c, [Lock, Unlock])
          else (let nv = Object v - n
                in (Inr nv, c\<lparr>items := (items c)(k \<mapsto> v\<lparr>Object := nv\<rparr>)\<rparr>, [Lock, Unlock])))"

section \<open>Deleting\<close>

text \<open>
  The unexported \<^verbatim>\<open>delete\<close> returns a pointer to a copy of the removed value, or to the
  zero value of \<^verbatim>\<open>T\<close> when the key is not in the map; value types have a zero here.
\<close>

definition delete :: "('v::zero, 'e) cache \<Rightarrow> string \<Rightarrow> ('v \<times> bool) \<times> ('v, 'e) cache" where
  "delete c k =
     (case items c k of
        Some v \<Rightarrow> ((Object v, True), c\<lparr>items := (items c)(k := None)\<rparr>)
      | None \<Rightarrow> ((0, False), c))"

definition Delete :: "('v::zero, 'e) cache \<Rightarrow> string \<Rightarrow> (unit, 'v, 'e) outcome" where
  "Delete c k =
     (let ((v, evicted), c') = delete c k
      in ((), c',
          [Lock, Unlock] @
          (case onEvicted c' of
             Some f \<Rightarrow> if evicted then [Callback (f k v)] else []
           | None \<Rightarrow> [])))"

text \<open>
  The loop of \<^verbatim>\<open>DeleteExpired\<close>. Go ranges over a map in an order it does not specify, so
  the order \<open>ks\<close> in which the keys are reached is an argument; a key whose entry is gone
  when it is reached produces no iteration. The accumulator is \<^verbatim>\<open>evictedItems\<close>.
\<close>

fun sweep :: "('v::zero, 'e) cache \<Rightarrow> int64 \<Rightarrow> string list \<Rightarrow> (string \<times> 'v) list
    \<Rightarrow> ('v, 'e) cache \<times> (string \<times> 'v) list" where
  "sweep c now [] ev = (c, ev)"
| "sweep c now (k # ks) ev =
     (case items c k of
        None \<Rightarrow> sweep c now ks ev
      | Some v \<Rightarrow>
          if 0 <s Expiration v \<and> Expiration v <s now then
            (let ((ov, evicted), c') = delete c k
             in sweep c' now ks (if onEvicted c' \<noteq> None \<and> evicted then ev @ [(k, ov)] else ev))
          else sweep c now ks ev)"

definition DeleteExpired :: "('v::zero, 'e) cache \<Rightarrow> string list \<Rightarrow> int64 \<Rightarrow> (unit, 'v, 'e) outcome" where
  "DeleteExpired c ks now =
     (let (c', evictedItems) = sweep c now ks []
      in ((), c',
          [Lock, Unlock] @
          (case onEvicted c' of
             Some f \<Rightarrow> map (\<lambda>(k, v). Callback (f k v)) evictedItems
           | None \<Rightarrow> [])))"

definition OnEvicted :: "('v, 'e) cache \<Rightarrow> (string \<Rightarrow> 'v \<Rightarrow> 'e) option \<Rightarrow> (unit, 'v, 'e) outcome" where
  "OnEvicted c f = ((), c\<lparr>onEvicted := f\<rparr>, [Lock, Unlock])"

definition Flush :: "('v, 'e) cache \<Rightarrow> (unit, 'v, 'e) outcome" where
  "Flush c = ((), c\<lparr>items := Map.empty\<rparr>, [Lock, Unlock])"

section \<open>Construction\<close>

definition newCache :: "Duration \<Rightarrow> (string \<rightharpoonup> 'v Item) \<Rightarrow> ('v, 'e) cache" where
  "newCache de m =
     \<lparr>defaultExpiration = (if de = 0 then - 1 else de), items = m, onEvicted = None,
      janitor = None\<rparr>"

definition newNumericCache :: "Duration \<Rightarrow> (string \<rightharpoonup> 'a word Item) \<Rightarrow> ('a::len word, 'e) cache" where
  "newNumericCache de m =
     \<lparr>defaultExpiration = (if de = 0 then - 1 else de), items = m, onEvicted = None,
      janitor = None\<rparr>"

text \<open>\<^verbatim>\<open>runJanitor\<close> stores the janitor; the goroutine it starts is outside the model.\<close>

definition newCacheWithJanitor :: "Duration \<Rightarrow> Duration \<Rightarrow> (string \<rightharpoonup> 'v Item) \<Rightarrow> ('v, 'e) cache" where
  "newCacheWithJanitor de ci m =
     (let c = newCache de m
      in if 0 <s ci then c\<lparr>janitor := Some \<lparr>Interval = ci\<rparr>\<rparr> else c)"

definition newNumericCacheWithJanitor :: "Duration \<Rightarrow> Duration \<Rightarrow> (string \<rightharpoonup> 'a word Item) \<Rightarrow> ('a::len word, 'e) cache" where
  "newNumericCacheWithJanitor de ci m =
     (let c = newNumericCache de m
      in if 0 <s ci then c\<lparr>janitor := Some \<lparr>Interval = ci\<rparr>\<rparr> else c)"

definition New :: "Duration \<Rightarrow> Duration \<Rightarrow> ('v, 'e) cache" where
  "New de ci = newCacheWithJanitor de ci Map.empty"

definition NewFrom :: "Duration \<Rightarrow> Duration \<Rightarrow> (string \<rightharpoonup> 'v Item) \<Rightarrow> ('v, 'e) cache" where
  "NewFrom de ci m = newCacheWithJanitor de ci m"

definition NewNumeric :: "Duration \<Rightarrow> Duration \<Rightarrow> ('a::len word, 'e) cache" where
  "NewNumeric de ci = newNumericCacheWithJanitor de ci Map.empty"

definition NewNumericFrom :: "Duration \<Rightarrow> Duration \<Rightarrow> (string \<rightharpoonup> 'a word Item) \<Rightarrow> ('a::len word, 'e) cache" where
  "NewNumericFrom de ci m = newNumericCacheWithJanitor de ci m"

section \<open>Specification functions and example caches\<close>

text \<open>
  The entries that a sweep at time \<open>now\<close> evicts, as key and value, in the order \<open>ks\<close> of
  the keys: those whose expiration is positive and before \<open>now\<close>.
\<close>

fun expired_entries :: "('v, 'e) cache \<Rightarrow> int64 \<Rightarrow> string list \<Rightarrow> (string \<times> 'v) list" where
  "expired_entries c now [] = []"
| "expired_entries c now (k # ks) =
     (case items c k of
        None \<Rightarrow> expired_entries c now ks
      | Some v \<Rightarrow> if 0 <s Expiration v \<and> Expiration v <s now
                  then (k, Object v) # expired_entries c now ks
                  else expired_entries c now ks)"

text \<open>
  A cache of \<^verbatim>\<open>int8\<close>/\<^verbatim>\<open>uint8\<close> values built by \<^verbatim>\<open>NewNumericFrom\<close> and \<^verbatim>\<open>OnEvicted\<close>: \<open>a\<close>
  never expires, \<open>b\<close> expires at 50, \<open>c\<close> at 200. Its callback reports the pair it is
  called with.
\<close>

definition demo_items :: "string \<rightharpoonup> 8 word Item" where
  "demo_items =
     [''a'' \<mapsto> \<lparr>Object = 127, Expiration = 0\<rparr>,
      ''b'' \<mapsto> \<lparr>Object = 0, Expiration = 50\<rparr>,
      ''c'' \<mapsto> \<lparr>Object = 7, Expiration = 200\<rparr>]"

definition demo :: "(8 word, string \<times> 8 word) cache" where
  "demo = post (OnEvicted (NewNumericFrom 0 0 demo_items) (Some Pair))"

text \<open>A cache whose only entry has a negative expiration, as \<^verbatim>\<open>NewFrom\<close> accepts it.\<close>

definition negative_demo :: "(8 word, string \<times> 8 word) cache" where
  "negative_demo = post (OnEvicted (NewFrom 0 0 [''n'' \<mapsto> \<lparr>Object = 1, Expiration = - 5\<rparr>]) (Some Pair))"

section \<open>Auxiliary facts\<close>

lemmas outcome_defs = ret_def post_def trace_def

lemmas demo_defs =
  demo_def demo_items_def negative_demo_def OnEvicted_def NewNumericFrom_def NewFrom_def
  newNumericCacheWithJanitor_def newCacheWithJanitor_def newNumericCache_def newCache_def
  outcome_defs word_sless_alt

lemma expired_entries_delete:
  "k \<notin> set ks \<Longrightarrow>
   expired_entries (c\<lparr>items := (items c)(k := None)\<rparr>) now ks = expired_entries c now ks"
  by (induction ks) (auto split: option.splits)

lemma expired_entries_keys:
  "map fst (expired_entries c now ks) =
     filter (\<lambda>k. case items c k of
                   None \<Rightarrow> False
                 | Some v \<Rightarrow> 0 <s Expiration v \<and> Expiration v <s now) ks"
  by (induction ks) (simp_all split: option.splits)

lemma expired_entries_set:
  "set (expired_entries c now ks) =
     {(k, Object v) | k v.
        k \<in> set ks \<and> items c k = Some v \<and> 0 <s Expiration v \<and> Expiration v <s now}"
  by (induction ks) (auto split: option.splits)

lemma sweep_fields:
  "onEvicted (fst (sweep c now ks ev)) = onEvicted c
   \<and> defaultExpiration (fst (sweep c now ks ev)) = defaultExpiration c
   \<and> janitor (fst (sweep c now ks ev)) = janitor c"
  by (induction ks arbitrary: c ev) (simp_all add: delete_def split: option.splits)

lemma sweep_items:
  "items (fst (sweep c now ks ev)) =
     (\<lambda>k. if k \<in> set ks
          then (case items c k of
                  None \<Rightarrow> None
                | Some v \<Rightarrow> if 0 <s Expiration v \<and> Expiration v <s now then None else Some v)
          else items c k)"
proof (induction ks arbitrary: c ev)
  case Nil
  show ?case by simp
next
  case (Cons k ks)
  show ?case
    by (rule ext) (simp add: Cons.IH delete_def split: option.splits)
qed

lemma sweep_evicted:
  "distinct ks \<Longrightarrow>
   snd (sweep c now ks ev) = ev @ (if onEvicted c = None then [] else expired_entries c now ks)"
proof (induction ks arbitrary: c ev)
  case Nil
  show ?case by simp
next
  case (Cons k ks)
  then have k: "k \<notin> set ks" and d: "distinct ks" by simp_all
  show ?case
    by (simp add: Cons.IH [OF d] expired_entries_delete [OF k] delete_def split: option.splits)
qed

lemma callbacks_evicted:
  "callbacks (map (\<lambda>(k, v). Callback (f k v)) es) = map (\<lambda>(k, v). f k v) es"
  by (induction es) auto

lemma DeleteExpired_keeps_unexpiring:
  fixes c :: "('v::zero, 'e) cache"
  assumes "items c k = Some \<lparr>Object = x, Expiration = 0\<rparr>"
  shows "items (post (DeleteExpired c ks now)) k = Some \<lparr>Object = x, Expiration = 0\<rparr>"
  using assms sweep_items [of c now ks "[]"]
  by (cases "sweep c now ks []") (simp add: DeleteExpired_def post_def)

lemma Get_unexpiring:
  "items c k = Some \<lparr>Object = x, Expiration = 0\<rparr> \<Longrightarrow> ret (Get c k t) = (Some x, True)"
  by (simp add: Get_def ret_def)

section \<open>Add\<close>

text \<open>
  C1, as stated, fails: an entry whose expiration is non-zero and has passed is expired
  (\<^verbatim>\<open>Item.Expired\<close> says so), yet when that expiration is negative \<^verbatim>\<open>Add\<close> returns the
  "already exists" error and keeps the entry.
\<close>

theorem Add_rejects_negative_expiration:
  "items negative_demo ''n'' = Some \<lparr>Object = 1, Expiration = - 5\<rparr>
   \<and> Expired \<lparr>Object = 1 :: 8 word, Expiration = - 5\<rparr> 100
   \<and> ret (Add negative_demo ''n'' 2 NoExpiration 100 100) = Some ''Item n already exists''
   \<and> items (post (Add negative_demo ''n'' 2 NoExpiration 100 100)) ''n''
       = Some \<lparr>Object = 1, Expiration = - 5\<rparr>"
  by (simp add: demo_defs Add_def get_def Expired_def err_already_exists_def)

text \<open>
  C1, amended. \<^verbatim>\<open>Add\<close> succeeds, leaving the cache and the trace that \<^verbatim>\<open>Set\<close> leaves,
  exactly when the key is not in the map or its entry has a strictly positive expiration
  that has passed. Otherwise, also for an entry with a zero or a negative expiration, it
  returns the "already exists" error, the cache is unchanged, and \<^verbatim>\<open>Get\<close> still returns
  the value stored before.
\<close>

theorem Add_iff_no_live_entry:
  "(case items c k of
      None \<Rightarrow>
        ret (Add c k x d t1 t2) = None \<and> post (Add c k x d t1 t2) = post (Set c k x d t2)
    | Some it \<Rightarrow>
        if 0 <s Expiration it \<and> Expiration it <s t1
        then ret (Add c k x d t1 t2) = None \<and> post (Add c k x d t1 t2) = post (Set c k x d t2)
        else ret (Add c k x d t1 t2) = Some (err_already_exists k)
           \<and> post (Add c k x d t1 t2) = c
           \<and> items (post (Add c k x d t1 t2)) k = Some it
           \<and> ret (Get (post (Add c k x d t1 t2)) k t1) = (Some (Object it), True))
   \<and> trace (Add c k x d t1 t2) = trace (Set c k x d t2)"
  by (simp add: Add_def get_def Get_def Set_def set_item_def ret_def post_def trace_def Let_def
      split: option.splits)

theorem Add_iff_no_live_entry_witness:
  "ret (Add demo ''a'' 5 NoExpiration 100 100) = Some ''Item a already exists''
   \<and> post (Add demo ''a'' 5 NoExpiration 100 100) = demo
   \<and> ret (Get (post (Add demo ''a'' 5 NoExpiration 100 100)) ''a'' 100) = (Some 127, True)
   \<and> ret (Add demo ''b'' 5 NoExpiration 100 100) = None
   \<and> items (post (Add demo ''b'' 5 NoExpiration 100 100)) ''b'' = Some \<lparr>Object = 5, Expiration = 0\<rparr>
   \<and> ret (Add demo ''z'' 5 30 100 100) = None
   \<and> items (post (Add demo ''z'' 5 30 100 100)) ''z'' = Some \<lparr>Object = 5, Expiration = 130\<rparr>
   \<and> ret (Add negative_demo ''n'' 5 30 100 100) = Some ''Item n already exists''
   \<and> post (Add negative_demo ''n'' 5 30 100 100) = negative_demo"
  using Add_iff_no_live_entry [of demo "''a''" 5 NoExpiration 100 100]
    Add_iff_no_live_entry [of demo "''b''" 5 NoExpiration 100 100]
    Add_iff_no_live_entry [of demo "''z''" 5 30 100 100]
    Add_iff_no_live_entry [of negative_demo "''n''" 5 30 100 100]
  by (simp add: demo_defs Set_def Get_def NoExpiration_def DefaultExpiration_def
      err_already_exists_def)

section \<open>Set without expiration\<close>

text \<open>
  C2. After \<^verbatim>\<open>Set(k, x, NoExpiration)\<close> the entry of \<open>k\<close> holds \<open>x\<close> with the zero
  expiration, and \<^verbatim>\<open>Get(k)\<close> returns \<open>(x, true)\<close> at every time \<open>t\<close>, also after a
  \<^verbatim>\<open>DeleteExpired\<close> run at any time \<open>t1\<close> that visits the keys in any order \<open>ks\<close>.
\<close>

theorem Set_NoExpiration_forever:
  fixes c :: "('v::zero, 'e) cache"
  shows
  "items (post (Set c k x NoExpiration t0)) k = Some \<lparr>Object = x, Expiration = 0\<rparr>
   \<and> ret (Get (post (Set c k x NoExpiration t0)) k t) = (Some x, True)
   \<and> ret (Get (post (DeleteExpired (post (Set c k x NoExpiration t0)) ks t1)) k t) = (Some x, True)"
proof -
  have s: "items (post (Set c k x NoExpiration t0)) k = Some \<lparr>Object = x, Expiration = 0\<rparr>"
    by (simp add: Set_def NoExpiration_def DefaultExpiration_def post_def Let_def word_sless_alt)
  show ?thesis
    using s Get_unexpiring [OF s] Get_unexpiring [OF DeleteExpired_keeps_unexpiring [OF s]]
    by simp
qed

section \<open>Increment and Decrement\<close>

text \<open>
  C3. On a live entry \<^verbatim>\<open>Increment\<close> and \<^verbatim>\<open>Decrement\<close> always succeed and return the sum
  and the difference modulo \<open>2 ^ w\<close>, \<open>w\<close> the width of the value type, read as unsigned
  (\<open>uint\<close>) or as two's complement (\<open>sint\<close>): nothing saturates and nothing is checked. An
  8-bit signed 127 incremented by 1 is -128; an 8-bit unsigned 0 decremented by 1 is 255.
\<close>

theorem Increment_Decrement_wrap:
  fixes c :: "('a::len word, 'e) cache" and c8 :: "(8 word, 'e) cache"
  shows
  "(items c k = Some v \<and> \<not> Expired v now \<longrightarrow>
      ret (Increment c k n now) = Inr (Object v + n)
    \<and> ret (Decrement c k n now) = Inr (Object v - n)
    \<and> uint (Object v + n) = (uint (Object v) + uint n) mod 2 ^ LENGTH('a)
    \<and> uint (Object v - n) = (uint (Object v) - uint n) mod 2 ^ LENGTH('a)
    \<and> sint (Object v + n) = signed_take_bit (LENGTH('a) - 1) (sint (Object v) + sint n)
    \<and> sint (Object v - n) = signed_take_bit (LENGTH('a) - 1) (sint (Object v) - sint n))
   \<and> (items c8 k8 = Some v8 \<and> \<not> Expired v8 now \<and> sint (Object v8) = 127 \<longrightarrow>
        (\<exists>w. ret (Increment c8 k8 1 now) = Inr w \<and> sint w = - 128))
   \<and> (items c8 k8 = Some v8 \<and> \<not> Expired v8 now \<and> uint (Object v8) = 0 \<longrightarrow>
        (\<exists>w. ret (Decrement c8 k8 1 now) = Inr w \<and> uint w = 255))"
proof -
  have gen: "items c k = Some v \<and> \<not> Expired v now \<longrightarrow>
      ret (Increment c k n now) = Inr (Object v + n)
    \<and> ret (Decrement c k n now) = Inr (Object v - n)"
    by (simp add: Increment_def Decrement_def ret_def Let_def)
  have u: "uint (Object v + n) = (uint (Object v) + uint n) mod 2 ^ LENGTH('a)"
    "uint (Object v - n) = (uint (Object v) - uint n) mod 2 ^ LENGTH('a)"
    by (simp_all add: uint_word_ariths)
  have s: "sint (Object v + n) = signed_take_bit (LENGTH('a) - 1) (sint (Object v) + sint n)"
    "sint (Object v - n) = signed_take_bit (LENGTH('a) - 1) (sint (Object v) - sint n)"
    by (simp_all add: sint_word_ariths)
  have i8: "sint (Object v8 + 1) = - 128" if "sint (Object v8) = 127"
  proof -
    have "Object v8 = word_of_int (sint (Object v8))" by simp
    then have "Object v8 = 127" using that by simp
    then show ?thesis by simp
  qed
  have d8: "uint (Object v8 - 1) = 255" if "uint (Object v8) = 0"
  proof -
    have "Object v8 = word_of_int (uint (Object v8))" by simp
    then have "Object v8 = 0" using that by simp
    then show ?thesis by (simp add: uint_word_ariths)
  qed
  have e8: "items c8 k8 = Some v8 \<and> \<not> Expired v8 now \<longrightarrow>
      ret (Increment c8 k8 1 now) = Inr (Object v8 + 1)
    \<and> ret (Decrement c8 k8 1 now) = Inr (Object v8 - 1)"
    by (simp add: Increment_def Decrement_def ret_def Let_def)
  show ?thesis using gen u s i8 d8 e8 by blast
qed

theorem Increment_Decrement_wrap_witness:
  "items demo ''a'' = Some \<lparr>Object = 127, Expiration = 0\<rparr>
   \<and> \<not> Expired \<lparr>Object = 127 :: 8 word, Expiration = 0\<rparr> 10
   \<and> ret (Increment demo ''a'' 1 10) = Inr (- 128)
   \<and> sint (- 128 :: 8 word) = - 128
   \<and> items demo ''b'' = Some \<lparr>Object = 0, Expiration = 50\<rparr>
   \<and> \<not> Expired \<lparr>Object = 0 :: 8 word, Expiration = 50\<rparr> 10
   \<and> ret (Decrement demo ''b'' 1 10) = Inr 255
   \<and> uint (255 :: 8 word) = 255"
  using
    Increment_Decrement_wrap [of demo "''a''" "\<lparr>Object = 127, Expiration = 0\<rparr>" 10 1 demo "''a''"
      "\<lparr>Object = 127, Expiration = 0\<rparr>"]
    Increment_Decrement_wrap [of demo "''b''" "\<lparr>Object = 0, Expiration = 50\<rparr>" 10 1 demo "''b''"
      "\<lparr>Object = 0, Expiration = 50\<rparr>"]
  by (simp add: demo_defs Expired_def)

text \<open>
  C4. \<^verbatim>\<open>Increment\<close> and \<^verbatim>\<open>Decrement\<close> return an error exactly when the key is not in the
  map or its entry is expired as \<^verbatim>\<open>Item.Expired\<close> has it (a non-zero expiration before
  \<open>now\<close>); the error is the "not found" one, and the cache after the failed call is the
  cache before it.
\<close>

theorem Increment_Decrement_not_found:
  fixes c :: "('a::len word, 'e) cache"
  shows
  "((\<exists>e. ret (Increment c k n now) = Inl e)
      \<longleftrightarrow> (items c k = None
           \<or> (\<exists>v. items c k = Some v \<and> Expiration v \<noteq> 0 \<and> Expiration v <s now)))
   \<and> ((\<exists>e. ret (Decrement c k n now) = Inl e)
      \<longleftrightarrow> (items c k = None
           \<or> (\<exists>v. items c k = Some v \<and> Expiration v \<noteq> 0 \<and> Expiration v <s now)))
   \<and> (items c k = None
        \<or> (\<exists>v. items c k = Some v \<and> Expiration v \<noteq> 0 \<and> Expiration v <s now) \<longrightarrow>
        ret (Increment c k n now) = Inl (err_not_found k)
      \<and> post (Increment c k n now) = c
      \<and> ret (Decrement c k n now) = Inl err_item_not_found
      \<and> post (Decrement c k n now) = c)"
  by (auto simp add: Increment_def Decrement_def Expired_def ret_def post_def Let_def
      split: option.splits)

theorem Increment_Decrement_not_found_witness:
  "ret (Increment demo ''b'' 1 100) = Inl ''Item b not found''
   \<and> post (Increment demo ''b'' 1 100) = demo
   \<and> ret (Decrement demo ''b'' 1 100) = Inl ''Item not found''
   \<and> post (Decrement demo ''b'' 1 100) = demo
   \<and> ret (Increment demo ''z'' 1 100) = Inl ''Item z not found''
   \<and> post (Decrement demo ''z'' 1 100) = demo
   \<and> (\<nexists>e. ret (Increment demo ''c'' 1 100) = Inl e)"
  using Increment_Decrement_not_found [of demo "''b''" 1 100]
    Increment_Decrement_not_found [of demo "''z''" 1 100]
    Increment_Decrement_not_found [of demo "''c''" 1 100]
  by (simp add: demo_defs err_not_found_def err_item_not_found_def)

text \<open>
  C8. A successful \<^verbatim>\<open>Increment\<close> or \<^verbatim>\<open>Decrement\<close> returns the new value and stores it under
  the expiration the entry had; every other key keeps its entry, and so does every other
  field of the cache.
\<close>

theorem Increment_Decrement_frame:
  fixes c :: "('a::len word, 'e) cache"
  assumes "items c k = Some v" and "\<not> Expired v now"
  shows
  "ret (Increment c k n now) = Inr (Object v + n)
   \<and> items (post (Increment c k n now)) k = Some \<lparr>Object = Object v + n, Expiration = Expiration v\<rparr>
   \<and> (\<forall>k'. k' \<noteq> k \<longrightarrow> items (post (Increment c k n now)) k' = items c k')
   \<and> post (Increment c k n now) = c\<lparr>items := (items c)(k \<mapsto> v\<lparr>Object := Object v + n\<rparr>)\<rparr>
   \<and> ret (Decrement c k n now) = Inr (Object v - n)
   \<and> items (post (Decrement c k n now)) k = Some \<lparr>Object = Object v - n, Expiration = Expiration v\<rparr>
   \<and> (\<forall>k'. k' \<noteq> k \<longrightarrow> items (post (Decrement c k n now)) k' = items c k')
   \<and> post (Decrement c k n now) = c\<lparr>items := (items c)(k \<mapsto> v\<lparr>Object := Object v - n\<rparr>)\<rparr>"
  using assms
  by (simp add: Increment_def Decrement_def ret_def post_def Let_def)

theorem Increment_Decrement_frame_witness:
  "items demo ''c'' = Some \<lparr>Object = 7, Expiration = 200\<rparr>
   \<and> \<not> Expired \<lparr>Object = 7 :: 8 word, Expiration = 200\<rparr> 100
   \<and> ret (Increment demo ''c'' 3 100) = Inr 10
   \<and> items (post (Increment demo ''c'' 3 100)) ''c'' = Some \<lparr>Object = 10, Expiration = 200\<rparr>
   \<and> items (post (Increment demo ''c'' 3 100)) ''a'' = Some \<lparr>Object = 127, Expiration = 0\<rparr>
   \<and> ret (Decrement demo ''c'' 3 100) = Inr 4
   \<and> items (post (Decrement demo ''c'' 3 100)) ''c'' = Some \<lparr>Object = 4, Expiration = 200\<rparr>
   \<and> items (post (Decrement demo ''c'' 3 100)) ''b'' = Some \<lparr>Object = 0, Expiration = 50\<rparr>"
proof -
  have h1: "items demo ''c'' = Some \<lparr>Object = 7, Expiration = 200\<rparr>"
    by (simp add: demo_defs)
  have h2: "\<not> Expired \<lparr>Object = 7 :: 8 word, Expiration = 200\<rparr> 100"
    by (simp add: Expired_def word_sless_alt)
  have a: "items demo ''a'' = Some \<lparr>Object = 127, Expiration = 0\<rparr>"
    and b: "items demo ''b'' = Some \<lparr>Object = 0, Expiration = 50\<rparr>"
    by (simp_all add: demo_defs)
  show ?thesis
    using h1 h2 a b Increment_Decrement_frame [OF h1 h2, of 3] by simp
qed

section \<open>Get\<close>

text \<open>
  C5, as stated, fails: an entry whose expiration is set (non-zero) and in the past is
  returned by \<^verbatim>\<open>Get\<close> with \<open>true\<close> when that expiration is negative.
\<close>

theorem Get_finds_negative_expiration:
  "items negative_demo ''n'' = Some \<lparr>Object = 1, Expiration = - 5\<rparr>
   \<and> (- 5 :: int64) \<noteq> 0
   \<and> (- 5 :: int64) <s 100
   \<and> ret (Get negative_demo ''n'' 100) = (Some 1, True)"
  by (simp add: demo_defs Get_def)

text \<open>
  C5, amended. \<^verbatim>\<open>Get\<close> returns \<open>(nil, false)\<close> exactly when the key is not in the map or
  its entry has a strictly positive expiration before \<open>now\<close>; an entry with a zero or a
  negative expiration is always found. The cache after \<^verbatim>\<open>Get\<close> is the cache before it, so
  an expired entry is still in the map.
\<close>

theorem Get_absent_or_expired:
  "(ret (Get c k now) = (None, False)
      \<longleftrightarrow> (items c k = None
           \<or> (\<exists>it. items c k = Some it \<and> 0 <s Expiration it \<and> Expiration it <s now)))
   \<and> post (Get c k now) = c
   \<and> items (post (Get c k now)) k = items c k"
  by (auto simp add: Get_def ret_def post_def split: option.splits)

theorem Get_absent_or_expired_witness:
  "ret (Get demo ''b'' 100) = (None, False)
   \<and> items (post (Get demo ''b'' 100)) ''b'' = Some \<lparr>Object = 0, Expiration = 50\<rparr>
   \<and> post (Get demo ''b'' 100) = demo
   \<and> ret (Get demo ''z'' 100) = (None, False)
   \<and> ret (Get demo ''c'' 100) \<noteq> (None, False)
   \<and> ret (Get demo ''a'' 100) \<noteq> (None, False)
   \<and> ret (Get negative_demo ''n'' 100) \<noteq> (None, False)
   \<and> post (Get negative_demo ''n'' 100) = negative_demo"
  using Get_absent_or_expired [of demo "''b''" 100] Get_absent_or_expired [of demo "''z''" 100]
    Get_absent_or_expired [of demo "''c''" 100] Get_absent_or_expired [of demo "''a''" 100]
    Get_absent_or_expired [of negative_demo "''n''" 100]
  by (simp add: demo_defs)

section \<open>DeleteExpired\<close>

text \<open>
  C6, as stated, fails: an entry whose expiration is non-zero and before the current time
  is kept when that expiration is negative.
\<close>

theorem DeleteExpired_keeps_negative_expiration:
  "items negative_demo ''n'' = Some \<lparr>Object = 1, Expiration = - 5\<rparr>
   \<and> (- 5 :: int64) \<noteq> 0
   \<and> (- 5 :: int64) <s 100
   \<and> items (post (DeleteExpired negative_demo [''n''] 100)) ''n''
       = Some \<lparr>Object = 1, Expiration = - 5\<rparr>
   \<and> trace (DeleteExpired negative_demo [''n''] 100) = [Lock, Unlock]"
  by (simp add: demo_defs DeleteExpired_def)

text \<open>
  C6, amended. Whatever order \<open>ks\<close> the range over the map takes, \<^verbatim>\<open>DeleteExpired\<close>
  removes exactly the entries whose expiration is positive and before \<open>now\<close>, and leaves
  every other entry as it was. Its trace is the lock, its release, and then the callback
  invocations: none without a callback, and with a callback \<open>f\<close> one call \<open>f k v\<close> for each
  removed entry, each removed key once.
\<close>

theorem DeleteExpired_removes_positive_past:
  fixes c :: "('v::zero, 'e) cache"
  assumes "distinct ks" and "set ks = dom (items c)"
  shows
  "items (post (DeleteExpired c ks now)) =
     (\<lambda>k. case items c k of
             None \<Rightarrow> None
           | Some v \<Rightarrow> if 0 <s Expiration v \<and> Expiration v <s now then None else Some v)
   \<and> trace (DeleteExpired c ks now) =
       [Lock, Unlock] @ map Callback (callbacks (trace (DeleteExpired c ks now)))
   \<and> callbacks (trace (DeleteExpired c ks now)) =
       (case onEvicted c of
          None \<Rightarrow> []
        | Some f \<Rightarrow> map (\<lambda>(k, v). f k v) (expired_entries c now ks))
   \<and> distinct (map fst (expired_entries c now ks))
   \<and> set (expired_entries c now ks) =
       {(k, Object v) | k v. items c k = Some v \<and> 0 <s Expiration v \<and> Expiration v <s now}"
proof -
  obtain c' ev where sw: "sweep c now ks [] = (c', ev)"
    by (cases "sweep c now ks []")
  have c': "items c' =
     (\<lambda>k. if k \<in> set ks
          then (case items c k of
                  None \<Rightarrow> None
                | Some v \<Rightarrow> if 0 <s Expiration v \<and> Expiration v <s now then None else Some v)
          else items c k)"
    using sweep_items [of c now ks "[]"] sw by simp
  have on: "onEvicted c' = onEvicted c"
    using sweep_fields [of c now ks "[]"] sw by simp
  have ev: "ev = (if onEvicted c = None then [] else expired_entries c now ks)"
    using sweep_evicted [OF assms(1), of c now "[]"] sw by simp
  have 1: "items (post (DeleteExpired c ks now)) =
     (\<lambda>k. case items c k of
             None \<Rightarrow> None
           | Some v \<Rightarrow> if 0 <s Expiration v \<and> Expiration v <s now then None else Some v)"
    unfolding DeleteExpired_def post_def sw using assms(2)
    by (intro ext) (auto simp add: c' domIff split: option.splits)
  have tr: "trace (DeleteExpired c ks now) =
      [Lock, Unlock] @
      (case onEvicted c of
         None \<Rightarrow> []
       | Some f \<Rightarrow> map (\<lambda>(k, v). Callback (f k v)) (expired_entries c now ks))"
    by (simp add: DeleteExpired_def trace_def sw on ev split: option.splits)
  have 3: "callbacks (trace (DeleteExpired c ks now)) =
       (case onEvicted c of
          None \<Rightarrow> []
        | Some f \<Rightarrow> map (\<lambda>(k, v). f k v) (expired_entries c now ks))"
    by (simp add: tr callbacks_evicted split: option.splits)
  have 2: "trace (DeleteExpired c ks now) =
      [Lock, Unlock] @ map Callback (callbacks (trace (DeleteExpired c ks now)))"
    unfolding 3 by (auto simp add: tr split: option.splits)
  have 4: "distinct (map fst (expired_entries c now ks))"
    using assms(1) by (simp add: expired_entries_keys)
  have 5: "set (expired_entries c now ks) =
       {(k, Object v) | k v. items c k = Some v \<and> 0 <s Expiration v \<and> Expiration v <s now}"
    using assms(2) by (auto simp add: expired_entries_set)
  show ?thesis using 1 2 3 4 5 by blast
qed

theorem DeleteExpired_removes_positive_past_witness:
  "distinct [''c'', ''a'', ''b''] \<and> set [''c'', ''a'', ''b''] = dom (items demo)
   \<and> items (post (DeleteExpired demo [''c'', ''a'', ''b''] 100)) ''b'' = None
   \<and> items (post (DeleteExpired demo [''c'', ''a'', ''b''] 100)) ''a''
       = Some \<lparr>Object = 127, Expiration = 0\<rparr>
   \<and> items (post (DeleteExpired demo [''c'', ''a'', ''b''] 100)) ''c''
       = Some \<lparr>Object = 7, Expiration = 200\<rparr>
   \<and> callbacks (trace (DeleteExpired demo [''c'', ''a'', ''b''] 100)) = [(''b'', 0)]
   \<and> trace (DeleteExpired demo [''c'', ''a'', ''b''] 100) = [Lock, Unlock, Callback (''b'', 0)]"
proof -
  have h1: "distinct [''c'', ''a'', ''b'']" by simp
  have h2: "set [''c'', ''a'', ''b''] = dom (items demo)"
    by (auto simp add: demo_defs split: if_splits)
  have i: "items demo ''a'' = Some \<lparr>Object = 127, Expiration = 0\<rparr>"
    "items demo ''b'' = Some \<lparr>Object = 0, Expiration = 50\<rparr>"
    "items demo ''c'' = Some \<lparr>Object = 7, Expiration = 200\<rparr>"
    "onEvicted demo = Some Pair"
    by (simp_all add: demo_defs)
  note swept = DeleteExpired_removes_positive_past [OF h1 h2, of 100]
  have it: "items (post (DeleteExpired demo [''c'', ''a'', ''b''] 100)) =
     (\<lambda>k. case items demo k of
             None \<Rightarrow> None
           | Some v \<Rightarrow> if 0 <s Expiration v \<and> Expiration v <s 100 then None else Some v)"
    using swept by blast
  have cb: "callbacks (trace (DeleteExpired demo [''c'', ''a'', ''b''] 100)) = [(''b'', 0)]"
    using swept by (simp add: i word_sless_alt)
  have "trace (DeleteExpired demo [''c'', ''a'', ''b''] 100) =
      [Lock, Unlock] @ map Callback (callbacks (trace (DeleteExpired demo [''c'', ''a'', ''b''] 100)))"
    using swept by blast
  then have tr: "trace (DeleteExpired demo [''c'', ''a'', ''b''] 100)
      = [Lock, Unlock, Callback (''b'', 0)]"
    unfolding cb by simp
  show ?thesis
    using h1 h2 cb tr by (simp add: it i word_sless_alt)
qed

section \<open>Construction with the default sentinel\<close>

text \<open>
  C9. The constructors turn a default expiration 0 into -1, so the cache built with 0 is the
  cache built with \<^verbatim>\<open>NoExpiration\<close>. On it an entry written by \<^verbatim>\<open>Set\<close> with
  \<^verbatim>\<open>DefaultExpiration\<close>, or by \<^verbatim>\<open>SetDefault\<close>, has the zero expiration: \<^verbatim>\<open>Get\<close> finds it at
  every time, also after a \<^verbatim>\<open>DeleteExpired\<close>.
\<close>

theorem default_zero_is_NoExpiration:
  fixes m :: "string \<rightharpoonup> 'v::zero Item" and mw :: "string \<rightharpoonup> 'a::len word Item"
  shows
  "(newCache 0 m :: ('v, 'e) cache) = newCache NoExpiration m
   \<and> (New 0 ci :: ('v, 'e) cache) = New NoExpiration ci
   \<and> (NewFrom 0 ci m :: ('v, 'e) cache) = NewFrom NoExpiration ci m
   \<and> (newNumericCache 0 mw :: ('a word, 'e) cache) = newNumericCache NoExpiration mw
   \<and> (NewNumeric 0 ci :: ('a word, 'e) cache) = NewNumeric NoExpiration ci
   \<and> (NewNumericFrom 0 ci mw :: ('a word, 'e) cache) = NewNumericFrom NoExpiration ci mw
   \<and> defaultExpiration (NewFrom 0 ci m :: ('v, 'e) cache) = NoExpiration
   \<and> items (post (Set (NewFrom 0 ci m :: ('v, 'e) cache) k x DefaultExpiration now)) k
       = Some \<lparr>Object = x, Expiration = 0\<rparr>
   \<and> items (post (SetDefault (NewFrom 0 ci m :: ('v, 'e) cache) k x now)) k
       = Some \<lparr>Object = x, Expiration = 0\<rparr>
   \<and> ret (Get (post (Set (NewFrom 0 ci m :: ('v, 'e) cache) k x DefaultExpiration now)) k t)
       = (Some x, True)
   \<and> ret (Get (post (SetDefault (NewFrom 0 ci m :: ('v, 'e) cache) k x now)) k t)
       = (Some x, True)
   \<and> ret (Get (post (DeleteExpired
            (post (SetDefault (NewFrom 0 ci m :: ('v, 'e) cache) k x now)) ks t1)) k t)
       = (Some x, True)"
proof -
  have eqs: "(newCache 0 m :: ('v, 'e) cache) = newCache NoExpiration m"
    "(New 0 ci :: ('v, 'e) cache) = New NoExpiration ci"
    "(NewFrom 0 ci m :: ('v, 'e) cache) = NewFrom NoExpiration ci m"
    "(newNumericCache 0 mw :: ('a word, 'e) cache) = newNumericCache NoExpiration mw"
    "(NewNumeric 0 ci :: ('a word, 'e) cache) = NewNumeric NoExpiration ci"
    "(NewNumericFrom 0 ci mw :: ('a word, 'e) cache) = NewNumericFrom NoExpiration ci mw"
    by (simp_all add: newCache_def New_def NewFrom_def newCacheWithJanitor_def
        newNumericCache_def NewNumeric_def NewNumericFrom_def newNumericCacheWithJanitor_def
        NoExpiration_def)
  have de: "defaultExpiration (NewFrom 0 ci m :: ('v, 'e) cache) = NoExpiration"
    by (simp add: newCache_def NewFrom_def newCacheWithJanitor_def NoExpiration_def Let_def)
  have s: "items (post (Set c k x DefaultExpiration now)) k = Some \<lparr>Object = x, Expiration = 0\<rparr>"
    if "defaultExpiration c = NoExpiration" for c :: "('v, 'e) cache"
    using that
    by (simp add: Set_def NoExpiration_def DefaultExpiration_def post_def Let_def word_sless_alt)
  note s1 = s [OF de]
  have s2: "items (post (SetDefault (NewFrom 0 ci m :: ('v, 'e) cache) k x now)) k
      = Some \<lparr>Object = x, Expiration = 0\<rparr>"
    using s1 by (simp add: SetDefault_def)
  show ?thesis
    using eqs de s1 s2 Get_unexpiring [OF s1] Get_unexpiring [OF s2]
      Get_unexpiring [OF DeleteExpired_keeps_unexpiring [OF s2]]
    by simp
qed

section \<open>Delete\<close>

text \<open>
  C10, as stated, fails in its contrast: for an entry whose expiration is non-zero and has
  passed but is negative, \<^verbatim>\<open>Delete\<close> removes it and calls the callback, but \<^verbatim>\<open>Get\<close> finds
  it, \<^verbatim>\<open>Add\<close> fails and \<^verbatim>\<open>Replace\<close> succeeds: they treat it as present too.
\<close>

theorem negative_expiration_present_for_all:
  "items negative_demo ''n'' = Some \<lparr>Object = 1, Expiration = - 5\<rparr>
   \<and> Expired \<lparr>Object = 1 :: 8 word, Expiration = - 5\<rparr> 100
   \<and> items (post (Delete negative_demo ''n'')) ''n'' = None
   \<and> trace (Delete negative_demo ''n'') = [Lock, Unlock, Callback (''n'', 1)]
   \<and> ret (Get negative_demo ''n'' 100) = (Some 1, True)
   \<and> ret (Add negative_demo ''n'' 9 NoExpiration 100 100) = Some ''Item n already exists''
   \<and> ret (Replace negative_demo ''n'' 9 NoExpiration 100 100) = None"
  by (simp add: demo_defs Delete_def delete_def Get_def Add_def Replace_def get_def Expired_def
      err_already_exists_def)

text \<open>
  C10, amended. \<^verbatim>\<open>Delete\<close> does not look at the expiration: every entry in the map,
  whatever its expiration and whether or not it has passed, is removed, and a registered
  callback is called once, after the release of the lock, with the key and the entry's
  value. When the expiration is strictly positive and has passed, \<^verbatim>\<open>Get\<close> finds nothing,
  \<^verbatim>\<open>Add\<close> succeeds and \<^verbatim>\<open>Replace\<close> fails at that time, as for an absent key; for any other
  entry, a negative expiration included, \<^verbatim>\<open>Get\<close> finds the value, \<^verbatim>\<open>Add\<close> fails and
  \<^verbatim>\<open>Replace\<close> succeeds.
\<close>

theorem Delete_removes_expired_entry:
  fixes c :: "('v::zero, 'e) cache"
  assumes "items c k = Some it"
  shows
  "items (post (Delete c k)) = (items c)(k := None)
   \<and> trace (Delete c k) =
       [Lock, Unlock] @ (case onEvicted c of Some f \<Rightarrow> [Callback (f k (Object it))] | None \<Rightarrow> [])
   \<and> callbacks (trace (Delete c k)) =
       (case onEvicted c of Some f \<Rightarrow> [f k (Object it)] | None \<Rightarrow> [])
   \<and> (if 0 <s Expiration it \<and> Expiration it <s now
       then ret (Get c k now) = (None, False)
          \<and> ret (Add c k x d now t2) = None
          \<and> ret (Replace c k x d now t2) = Some (err_doesnt_exist k)
       else ret (Get c k now) = (Some (Object it), True)
          \<and> ret (Add c k x d now t2) = Some (err_already_exists k)
          \<and> ret (Replace c k x d now t2) = None)"
  using assms
  by (simp add: Delete_def delete_def Get_def Add_def Replace_def get_def ret_def post_def
      trace_def split: option.splits)

theorem Delete_removes_expired_entry_witness:
  "items demo ''b'' = Some \<lparr>Object = 0, Expiration = 50\<rparr>
   \<and> (0 :: int64) <s 50 \<and> (50 :: int64) <s 100
   \<and> items (post (Delete demo ''b'')) ''b'' = None
   \<and> trace (Delete demo ''b'') = [Lock, Unlock, Callback (''b'', 0)]
   \<and> ret (Get demo ''b'' 100) = (None, False)
   \<and> ret (Add demo ''b'' 9 0 100 100) = None
   \<and> ret (Replace demo ''b'' 9 0 100 100) = Some ''Item b doesn't exist''
   \<and> items negative_demo ''n'' = Some \<lparr>Object = 1, Expiration = - 5\<rparr>
   \<and> items (post (Delete negative_demo ''n'')) ''n'' = None
   \<and> trace (Delete negative_demo ''n'') = [Lock, Unlock, Callback (''n'', 1)]
   \<and> ret (Get negative_demo ''n'' 100) = (Some 1, True)
   \<and> ret (Replace negative_demo ''n'' 9 0 100 100) = None"
proof -
  have h1: "items demo ''b'' = Some \<lparr>Object = 0, Expiration = 50\<rparr>"
    and h2: "items negative_demo ''n'' = Some \<lparr>Object = 1, Expiration = - 5\<rparr>"
    by (simp_all add: demo_defs)
  have on: "onEvicted demo = Some Pair" "onEvicted negative_demo = Some Pair"
    by (simp_all add: demo_defs)
  show ?thesis
    using h1 h2 Delete_removes_expired_entry [OF h1, of 100 9 0 100]
      Delete_removes_expired_entry [OF h2, of 100 9 0 100]
    by (simp add: on err_doesnt_exist_def word_sless_alt)
qed

section \<open>Flush\<close>

text \<open>
  C7. After \<^verbatim>\<open>Flush\<close>, \<^verbatim>\<open>ItemCount\<close> is 0 and \<^verbatim>\<open>Get\<close> finds no key, at any time; the trace of
  \<^verbatim>\<open>Flush\<close> is the lock and its release, with no callback invocation, whatever the entries
  and whatever the registered callback.
\<close>

theorem Flush_clears_silently:
  "ret (ItemCount (post (Flush c))) = 0
   \<and> ret (Get (post (Flush c)) k now) = (None, False)
   \<and> items (post (Flush c)) = Map.empty
   \<and> callbacks (trace (Flush c)) = []
   \<and> trace (Flush c) = [Lock, Unlock]"
  by (simp add: Flush_def ItemCount_def Get_def ret_def post_def trace_def)

end
